theory Spec2Isabelle
  imports Main
begin

section \<open>The desktop notification service\<close>

text \<open>
  A shallow embedding of
  \<^verbatim>\<open>chrome/browser/notifications/desktop_notification_service.cc\<close>:
  the permission store kept in the profile's preferences (the list of allowed
  origins, the list of denied origins, the default content setting), the
  permission query, the permission request with its info bar, and the choice of
  the template of a text notification.

  The service mutates the preferences of its profile, posts tasks to the IO
  thread and adds info bars to a tab. The model passes all of this explicitly:
  a record \<open>state\<close> holds what the service can read and change, and every
  member function takes a state and returns the new one.

  An origin is a \<^verbatim>\<open>GURL\<close>. The code stores \<^verbatim>\<open>origin.spec()\<close>
  in the preference lists, reads the lists back as URLs and compares URLs, and
  two URLs are equal when their specs are; the model therefore identifies an
  origin with its spec, a string. The process, route and request identifiers
  are C++ \<^verbatim>\<open>int\<close>s that the code only copies and compares, and the
  index \<^verbatim>\<open>ListValue::Remove\<close> returns is only compared with -1; both
  are integers in the model. The thread assertions
  (\<^verbatim>\<open>DCHECK(ChromeThread::CurrentlyOn(...))\<close>), the preferences
  cache behind the posted tasks and the display of a notification
  (\<^verbatim>\<open>ShowDesktopNotification\<close>, \<^verbatim>\<open>CancelDesktopNotification\<close>)
  are not modelled.
\<close>

subsection \<open>Content settings\<close>

text \<open>
  Modelled from the spec: the enumeration \<^verbatim>\<open>ContentSetting\<close> and
  \<^verbatim>\<open>IntToContentSetting\<close> are declared in
  \<^verbatim>\<open>chrome/common/content_settings.h\<close>, which is
  outside this file. The spec names the states ALLOW, BLOCK and ASK and the
  sentinel "use the factory default" (\<^verbatim>\<open>CONTENT_SETTING_DEFAULT\<close>);
  a stored integer that is no setting decodes to the sentinel.
\<close>

datatype ContentSetting =
  CONTENT_SETTING_DEFAULT
| CONTENT_SETTING_ALLOW
| CONTENT_SETTING_BLOCK
| CONTENT_SETTING_ASK

fun ContentSettingToInt :: "ContentSetting \<Rightarrow> int" where
  "ContentSettingToInt CONTENT_SETTING_DEFAULT = 0"
| "ContentSettingToInt CONTENT_SETTING_ALLOW = 1"
| "ContentSettingToInt CONTENT_SETTING_BLOCK = 2"
| "ContentSettingToInt CONTENT_SETTING_ASK = 3"

definition IntToContentSetting :: "int \<Rightarrow> ContentSetting" where
  "IntToContentSetting content_setting =
     (if content_setting = 1 then CONTENT_SETTING_ALLOW
      else if content_setting = 2 then CONTENT_SETTING_BLOCK
      else if content_setting = 3 then CONTENT_SETTING_ASK
      else CONTENT_SETTING_DEFAULT)"

text \<open>\<^verbatim>\<open>const ContentSetting kDefaultSetting = CONTENT_SETTING_ASK;\<close>\<close>

definition kDefaultSetting :: ContentSetting where
  "kDefaultSetting = CONTENT_SETTING_ASK"

subsection \<open>The template of a text notification\<close>

text \<open>
  \<^verbatim>\<open>CreateDataUrl\<close> reads two things of the icon's URL: whether it is
  valid, and its spec.
\<close>

record GURL =
  is_valid :: bool
  spec :: string

text \<open>
  Modelled from the spec: \<^verbatim>\<open>WebKit::WebTextDirection\<close> is declared in
  WebKit's public headers, outside this file; the code compares the
  direction with \<^verbatim>\<open>WebTextDirectionRightToLeft\<close> only.
\<close>

datatype WebTextDirection =
  WebTextDirectionDefault
| WebTextDirectionLeftToRight
| WebTextDirectionRightToLeft

text \<open>The three template resources \<^verbatim>\<open>CreateDataUrl\<close> chooses from.\<close>

datatype resource_id =
  IDR_NOTIFICATION_ICON_HTML
| IDR_NOTIFICATION_1LINE_HTML
| IDR_NOTIFICATION_2LINE_HTML

text \<open>
  The helpers \<^verbatim>\<open>CreateDataUrl\<close> calls are library functions that are
  defined outside this file; they are parameters of the model. The
  conversions between UTF-8 and UTF-16 are the identity on the model's strings.
\<close>

record string_helpers =
  EscapeForHTML :: "string \<Rightarrow> string"
  GetRawDataResource :: "resource_id \<Rightarrow> string"
  ReplaceStringPlaceholders :: "string \<Rightarrow> string list \<Rightarrow> string"
  EscapeQueryParamValue :: "string \<Rightarrow> string"

text \<open>
  The first half of \<^verbatim>\<open>CreateDataUrl\<close> (lines 47 to 74): the template
  \<open>resource\<close> and the substitutions \<open>subst\<close>.
\<close>

definition CreateDataUrl_template ::
  "string_helpers \<Rightarrow> GURL \<Rightarrow> string \<Rightarrow> string \<Rightarrow> WebTextDirection
     \<Rightarrow> resource_id \<times> string list" where
  "CreateDataUrl_template h icon_url title body dir =
     (let (resource, subst) =
        (if is_valid icon_url then
           (IDR_NOTIFICATION_ICON_HTML,
            [spec icon_url, EscapeForHTML h title, EscapeForHTML h body,
             (if dir = WebTextDirectionRightToLeft then ''right'' else ''left'')])
         else if title = [] \<or> body = [] then
           (let line = (if title = [] then body else title);
                line_name = (if title = [] then ''description'' else ''title'')
            in (IDR_NOTIFICATION_1LINE_HTML,
                [EscapeForHTML h line_name, EscapeForHTML h line]))
         else
           (IDR_NOTIFICATION_2LINE_HTML,
            [EscapeForHTML h title, EscapeForHTML h body]))
      in (resource,
          subst @ [if dir = WebTextDirectionRightToLeft then ''rtl'' else ''ltr'']))"

text \<open>
  The second half (lines 76 to 87): an empty template gives the empty string
  (after \<^verbatim>\<open>NOTREACHED()\<close>), otherwise the filled template becomes a
  \<^verbatim>\<open>data:\<close> URL.
\<close>

definition CreateDataUrl ::
  "string_helpers \<Rightarrow> GURL \<Rightarrow> string \<Rightarrow> string \<Rightarrow> WebTextDirection \<Rightarrow> string" where
  "CreateDataUrl h icon_url title body dir =
     (let (resource, subst) = CreateDataUrl_template h icon_url title body dir;
          template_html = GetRawDataResource h resource
      in if template_html = [] then []
         else ''data:text/html;charset=utf-8,'' @
              EscapeQueryParamValue h (ReplaceStringPlaceholders h template_html subst))"

text \<open>
  The layout as the specification words it, for comparison with the code:
  an icon layout if the icon's URL is present, else a single line if exactly
  one of title and body is non-empty, else two lines.
\<close>

definition Render_layout_as_specified :: "GURL \<Rightarrow> string \<Rightarrow> string \<Rightarrow> resource_id" where
  "Render_layout_as_specified icon_url title body =
     (if is_valid icon_url then IDR_NOTIFICATION_ICON_HTML
      else if (title \<noteq> []) \<noteq> (body \<noteq> []) then IDR_NOTIFICATION_1LINE_HTML
      else IDR_NOTIFICATION_2LINE_HTML)"

subsection \<open>The state the service works on\<close>

type_synonym origin = string

text \<open>
  The tasks the service posts to the IO thread: the completion notice of a
  permission request (process id, route id, request id) and the updates of the
  preferences cache.
\<close>

datatype Task =
  NotificationPermissionCallbackTask int int int
| CacheAllowedOrigin origin
| CacheDeniedOrigin origin
| SetCacheAllowedOrigins "origin list"
| SetCacheDeniedOrigins "origin list"
| SetCacheDefaultContentSetting ContentSetting

text \<open>The three preferences of the service.\<close>

datatype pref_name =
  kDesktopNotificationDefaultContentSetting
| kDesktopNotificationAllowedOrigins
| kDesktopNotificationDeniedOrigins

text \<open>
  \<open>is_off_the_record\<close> is \<^verbatim>\<open>profile_->IsOffTheRecord()\<close>; the three
  preference values are what \<^verbatim>\<open>profile_->GetPrefs()\<close> holds;
  \<open>scheduled_saves\<close> counts the calls of
  \<^verbatim>\<open>ScheduleSavePersistentPrefs\<close>; \<open>observing\<close> says whether the
  service is registered as an observer of its preferences; \<open>io_tasks\<close> is
  the queue of the IO thread, oldest task first; \<open>histograms\<close> lists the
  counters bumped by \<^verbatim>\<open>UMA_HISTOGRAM_COUNTS\<close>; \<open>dcheck_failures\<close>
  lists the messages of the \<^verbatim>\<open>DCHECK\<close>s that did not hold.
\<close>

record state =
  is_off_the_record :: bool
  default_content_setting_pref :: int
  allowed_origins_pref :: "string list"
  denied_origins_pref :: "string list"
  scheduled_saves :: nat
  observing :: bool
  io_tasks :: "Task list"
  histograms :: "string list"
  dcheck_failures :: "string list"

text \<open>\<^verbatim>\<open>ChromeThread::PostTask(ChromeThread::IO, FROM_HERE, task)\<close>\<close>

definition PostTask :: "Task \<Rightarrow> state \<Rightarrow> state" where
  "PostTask task s = s\<lparr>io_tasks := io_tasks s @ [task]\<rparr>"

text \<open>\<^verbatim>\<open>UMA_HISTOGRAM_COUNTS(name, 1)\<close>\<close>

definition UMA_HISTOGRAM_COUNTS :: "string \<Rightarrow> state \<Rightarrow> state" where
  "UMA_HISTOGRAM_COUNTS name s = s\<lparr>histograms := histograms s @ [name]\<rparr>"

text \<open>
  A \<^verbatim>\<open>DCHECK\<close> that does not hold is recorded with its message, and the
  function goes on as a release build does (a debug build stops there).
\<close>

definition DCHECK :: "bool \<Rightarrow> string \<Rightarrow> state \<Rightarrow> state" where
  "DCHECK condition message s =
     (if condition then s else s\<lparr>dcheck_failures := dcheck_failures s @ [message]\<rparr>)"

text \<open>
  \<^verbatim>\<open>GetAllowedOrigins\<close> and \<^verbatim>\<open>GetBlockedOrigins\<close> turn the
  preference list into a vector of URLs, entry by entry
  (\<^verbatim>\<open>NotificationsPrefsCache::ListValueToGurlVector\<close>, defined outside
  this file); with an origin identified with its spec the vector is the list.
\<close>

definition GetAllowedOrigins :: "state \<Rightarrow> origin list" where
  "GetAllowedOrigins s = allowed_origins_pref s"

definition GetBlockedOrigins :: "state \<Rightarrow> origin list" where
  "GetBlockedOrigins s = denied_origins_pref s"

text \<open>\<^verbatim>\<open>Observe\<close>: a changed preference is sent to the cache as a whole.\<close>

definition Observe :: "pref_name \<Rightarrow> state \<Rightarrow> state" where
  "Observe name s =
     (case name of
        kDesktopNotificationAllowedOrigins \<Rightarrow>
          PostTask (SetCacheAllowedOrigins (GetAllowedOrigins s)) s
      | kDesktopNotificationDeniedOrigins \<Rightarrow>
          PostTask (SetCacheDeniedOrigins (GetBlockedOrigins s)) s
      | kDesktopNotificationDefaultContentSetting \<Rightarrow>
          PostTask (SetCacheDefaultContentSetting
                      (IntToContentSetting (default_content_setting_pref s))) s)"

definition StartObserving :: "state \<Rightarrow> state" where
  "StartObserving s = (if \<not> is_off_the_record s then s\<lparr>observing := True\<rparr> else s)"

definition StopObserving :: "state \<Rightarrow> state" where
  "StopObserving s = (if \<not> is_off_the_record s then s\<lparr>observing := False\<rparr> else s)"

subsection \<open>The preference service and its lists\<close>

text \<open>
  Modelled from the spec: \<^verbatim>\<open>PrefService\<close>, \<^verbatim>\<open>ScopedPrefUpdate\<close>
  and \<^verbatim>\<open>ListValue\<close> are defined outside this file. Changing a
  preference notifies its observers (the service, while it observes);
  \<^verbatim>\<open>ScopedPrefUpdate\<close> sends that notification for a list changed in
  place; \<^verbatim>\<open>ClearPref\<close> empties a list ("clears both lists; default
  policy is untouched"); \<^verbatim>\<open>ScheduleSavePersistentPrefs\<close> asks for the
  preferences to be written out.
\<close>

definition FireObservers :: "pref_name \<Rightarrow> state \<Rightarrow> state" where
  "FireObservers name s = (if observing s then Observe name s else s)"

definition ScopedPrefUpdate :: "pref_name \<Rightarrow> state \<Rightarrow> state" where
  "ScopedPrefUpdate name s = FireObservers name s"

definition ScheduleSavePersistentPrefs :: "state \<Rightarrow> state" where
  "ScheduleSavePersistentPrefs s = s\<lparr>scheduled_saves := Suc (scheduled_saves s)\<rparr>"

definition SetInteger :: "int \<Rightarrow> state \<Rightarrow> state" where
  "SetInteger v s =
     (let changed = (default_content_setting_pref s \<noteq> v);
          s1 = s\<lparr>default_content_setting_pref := v\<rparr>
      in if changed then FireObservers kDesktopNotificationDefaultContentSetting s1 else s1)"

definition ClearPref :: "pref_name \<Rightarrow> state \<Rightarrow> state" where
  "ClearPref name s =
     (case name of
        kDesktopNotificationAllowedOrigins \<Rightarrow>
          (let changed = (allowed_origins_pref s \<noteq> []);
               s1 = s\<lparr>allowed_origins_pref := []\<rparr>
           in if changed then FireObservers name s1 else s1)
      | kDesktopNotificationDeniedOrigins \<Rightarrow>
          (let changed = (denied_origins_pref s \<noteq> []);
               s1 = s\<lparr>denied_origins_pref := []\<rparr>
           in if changed then FireObservers name s1 else s1)
      | kDesktopNotificationDefaultContentSetting \<Rightarrow>
          SetInteger (ContentSettingToInt kDefaultSetting) s)"

text \<open>
  Modelled from the spec: \<^verbatim>\<open>ListValue::Remove\<close> takes the first entry
  equal to the value out of the list and returns its index, or -1 when there is
  none; \<^verbatim>\<open>ListValue::AppendIfNotPresent\<close> appends the value unless the
  list has an equal entry, and says whether it did ("no-op on the destination
  list if the origin is already present there").
\<close>

fun ListValue_Remove :: "string list \<Rightarrow> string \<Rightarrow> int \<times> string list" where
  "ListValue_Remove [] v = (-1, [])"
| "ListValue_Remove (x # xs) v =
     (if x = v then (0, xs)
      else (let (i, ys) = ListValue_Remove xs v
            in (if i = -1 then -1 else i + 1, x # ys)))"

definition ListValue_AppendIfNotPresent :: "string list \<Rightarrow> string \<Rightarrow> bool \<times> string list" where
  "ListValue_AppendIfNotPresent xs v = (if v \<in> set xs then (False, xs) else (True, xs @ [v]))"

subsection \<open>Recording and resetting decisions\<close>

text \<open>
  The block of \<^verbatim>\<open>PersistPermissionChange\<close> that moves the origin
  (lines 347 to 380), on the two lists: it returns the locals
  \<open>allowed_changed\<close> and \<open>denied_changed\<close> and the lists as they are
  afterwards.
\<close>

definition PersistPermissionChange_lists ::
  "origin \<Rightarrow> bool \<Rightarrow> string list \<Rightarrow> string list
     \<Rightarrow> bool \<times> bool \<times> string list \<times> string list" where
  "PersistPermissionChange_lists origin is_allowed allowed_sites denied_sites =
     (if is_allowed then
        (let (removed_index, denied_sites') = ListValue_Remove denied_sites origin;
             denied_changed = (removed_index \<noteq> -1);
             (allowed_changed, allowed_sites') =
               ListValue_AppendIfNotPresent allowed_sites origin
         in (allowed_changed, denied_changed, allowed_sites', denied_sites'))
      else
        (let (removed_index, allowed_sites') = ListValue_Remove allowed_sites origin;
             allowed_changed = (removed_index \<noteq> -1);
             (denied_changed, denied_sites') =
               ListValue_AppendIfNotPresent denied_sites origin
         in (allowed_changed, denied_changed, allowed_sites', denied_sites')))"

text \<open>
  \<^verbatim>\<open>PersistPermissionChange\<close>: nothing when off the record; otherwise
  the observer is detached, the origin moves, the lists that changed are
  announced, a save is scheduled if one did, and the observer is attached again.
\<close>

definition PersistPermissionChange :: "origin \<Rightarrow> bool \<Rightarrow> state \<Rightarrow> state" where
  "PersistPermissionChange origin is_allowed s =
     (if is_off_the_record s then s
      else
        (let s1 = StopObserving s;
             (allowed_changed, denied_changed, allowed_sites, denied_sites) =
               PersistPermissionChange_lists origin is_allowed
                 (allowed_origins_pref s1) (denied_origins_pref s1);
             s2 = s1\<lparr>allowed_origins_pref := allowed_sites,
                      denied_origins_pref := denied_sites\<rparr>;
             s3 = (if allowed_changed \<or> denied_changed then
                     (let s4 = (if allowed_changed
                                then ScopedPrefUpdate kDesktopNotificationAllowedOrigins s2
                                else s2);
                          s5 = (if denied_changed
                                then ScopedPrefUpdate kDesktopNotificationDeniedOrigins s4
                                else s4)
                      in ScheduleSavePersistentPrefs s5)
                   else s2)
         in StartObserving s3))"

definition GrantPermission :: "origin \<Rightarrow> state \<Rightarrow> state" where
  "GrantPermission origin s =
     PostTask (CacheAllowedOrigin origin) (PersistPermissionChange origin True s)"

definition DenyPermission :: "origin \<Rightarrow> state \<Rightarrow> state" where
  "DenyPermission origin s =
     PostTask (CacheDeniedOrigin origin) (PersistPermissionChange origin False s)"

definition GetDefaultContentSetting :: "state \<Rightarrow> ContentSetting" where
  "GetDefaultContentSetting s =
     (let setting = IntToContentSetting (default_content_setting_pref s)
      in if setting = CONTENT_SETTING_DEFAULT then kDefaultSetting else setting)"

definition SetDefaultContentSetting :: "ContentSetting \<Rightarrow> state \<Rightarrow> state" where
  "SetDefaultContentSetting setting s =
     SetInteger
       (ContentSettingToInt
          (if setting = CONTENT_SETTING_DEFAULT then kDefaultSetting else setting)) s"

definition ResetAllowedOrigin :: "origin \<Rightarrow> state \<Rightarrow> state" where
  "ResetAllowedOrigin origin s =
     (if is_off_the_record s then s
      else
        (let (removed_index, allowed_sites) =
               ListValue_Remove (allowed_origins_pref s) origin;
             s1 = s\<lparr>allowed_origins_pref := allowed_sites\<rparr>;
             s2 = DCHECK (removed_index \<noteq> -1) (origin @ '' was not allowed'') s1;
             s3 = ScopedPrefUpdate kDesktopNotificationAllowedOrigins s2
         in ScheduleSavePersistentPrefs s3))"

definition ResetBlockedOrigin :: "origin \<Rightarrow> state \<Rightarrow> state" where
  "ResetBlockedOrigin origin s =
     (if is_off_the_record s then s
      else
        (let (removed_index, denied_sites) =
               ListValue_Remove (denied_origins_pref s) origin;
             s1 = s\<lparr>denied_origins_pref := denied_sites\<rparr>;
             s2 = DCHECK (removed_index \<noteq> -1) (origin @ '' was not blocked'') s1;
             s3 = ScopedPrefUpdate kDesktopNotificationDeniedOrigins s2
         in ScheduleSavePersistentPrefs s3))"

text \<open>\<^verbatim>\<open>ResetAllOrigins\<close> asks no question about the profile.\<close>

definition ResetAllOrigins :: "state \<Rightarrow> state" where
  "ResetAllOrigins s =
     ClearPref kDesktopNotificationDeniedOrigins
       (ClearPref kDesktopNotificationAllowedOrigins s)"

definition GetContentSetting :: "origin \<Rightarrow> state \<Rightarrow> ContentSetting" where
  "GetContentSetting origin s =
     (if is_off_the_record s then kDefaultSetting
      else if origin \<in> set (GetAllowedOrigins s) then CONTENT_SETTING_ALLOW
      else if origin \<in> set (GetBlockedOrigins s) then CONTENT_SETTING_BLOCK
      else GetDefaultContentSetting s)"

subsection \<open>Permission requests and the info bar\<close>

text \<open>
  The members of \<^verbatim>\<open>NotificationPermissionInfoBarDelegate\<close> (the
  profile is the one of the state).
\<close>

record NotificationPermissionInfoBarDelegate =
  m_origin :: origin
  m_display_name :: string
  m_process_id :: int
  m_route_id :: int
  m_callback_context :: int
  m_action_taken :: bool

text \<open>A tab, as far as the service uses it: the info bars added to it.\<close>

record TabContents =
  infobar_delegates :: "NotificationPermissionInfoBarDelegate list"

definition AddInfoBar ::
  "NotificationPermissionInfoBarDelegate \<Rightarrow> TabContents \<Rightarrow> TabContents" where
  "AddInfoBar delegate tab = tab\<lparr>infobar_delegates := infobar_delegates tab @ [delegate]\<rparr>"

text \<open>
  \<^verbatim>\<open>InfoBarClosed\<close> counts a bar closed with no button pressed, posts
  the completion notice and deletes the delegate (only the state is returned).
\<close>

definition InfoBarClosed :: "NotificationPermissionInfoBarDelegate \<Rightarrow> state \<Rightarrow> state" where
  "InfoBarClosed d s =
     (let s1 = (if \<not> m_action_taken d
                then UMA_HISTOGRAM_COUNTS ''NotificationPermissionRequest.Ignored'' s
                else s)
      in PostTask (NotificationPermissionCallbackTask
                     (m_process_id d) (m_route_id d) (m_callback_context d)) s1)"

text \<open>
  \<^verbatim>\<open>Accept\<close> and \<^verbatim>\<open>Cancel\<close> return \<open>true\<close>, the delegate as it
  is afterwards, and the state.
\<close>

definition Accept ::
  "NotificationPermissionInfoBarDelegate \<Rightarrow> state
     \<Rightarrow> bool \<times> NotificationPermissionInfoBarDelegate \<times> state" where
  "Accept d s =
     (let s1 = UMA_HISTOGRAM_COUNTS ''NotificationPermissionRequest.Allowed'' s;
          s2 = GrantPermission (m_origin d) s1
      in (True, d\<lparr>m_action_taken := True\<rparr>, s2))"

definition Cancel ::
  "NotificationPermissionInfoBarDelegate \<Rightarrow> state
     \<Rightarrow> bool \<times> NotificationPermissionInfoBarDelegate \<times> state" where
  "Cancel d s =
     (let s1 = UMA_HISTOGRAM_COUNTS ''NotificationPermissionRequest.Denied'' s;
          s2 = DenyPermission (m_origin d) s1
      in (True, d\<lparr>m_action_taken := True\<rparr>, s2))"

text \<open>
  \<^verbatim>\<open>DisplayNameForOrigin\<close> reads the scheme and the host of the URL and
  asks the extensions service, which may be absent, for the extension of an
  extension URL. \<^verbatim>\<open>GURL\<close> and \<^verbatim>\<open>ExtensionsService\<close> are
  defined outside this file, so these are parameters.
\<close>

record origin_helpers =
  SchemeIs_kExtensionScheme :: "origin \<Rightarrow> bool"
  host :: "origin \<Rightarrow> string"
  GetExtensionsService :: "(origin \<Rightarrow> string option) option"

definition DisplayNameForOrigin :: "origin_helpers \<Rightarrow> origin \<Rightarrow> string" where
  "DisplayNameForOrigin g origin =
     (if SchemeIs_kExtensionScheme g origin then
        (case GetExtensionsService g of
           Some GetExtensionByURL \<Rightarrow>
             (case GetExtensionByURL origin of
                Some name \<Rightarrow> name
              | None \<Rightarrow> host g origin)
         | None \<Rightarrow> host g origin)
      else host g origin)"

text \<open>
  \<^verbatim>\<open>RequestPermission\<close>: the tab is a pointer that may be null
  (\<open>None\<close>); the function returns the tab and the state as they are
  afterwards.
\<close>

definition RequestPermission ::
  "origin_helpers \<Rightarrow> origin \<Rightarrow> int \<Rightarrow> int \<Rightarrow> int \<Rightarrow> TabContents option \<Rightarrow> state
     \<Rightarrow> TabContents option \<times> state" where
  "RequestPermission g origin process_id route_id callback_context tab s =
     (case tab of
        None \<Rightarrow> (None, s)
      | Some t \<Rightarrow>
          (let setting = GetContentSetting origin s
           in if setting = CONTENT_SETTING_ASK then
                (let display_name = DisplayNameForOrigin g origin
                 in (Some (AddInfoBar
                       \<lparr>m_origin = origin, m_display_name = display_name,
                        m_process_id = process_id, m_route_id = route_id,
                        m_callback_context = callback_context,
                        m_action_taken = False\<rparr> t), s))
              else
                (Some t,
                 PostTask (NotificationPermissionCallbackTask
                             process_id route_id callback_context) s)))"

text \<open>
  Modelled from the spec: the info bar framework that calls the delegate is
  not in this file. The decision surface "returns exactly one of
  Accept/Deny/Dismiss exactly once": a press of a button calls
  \<^verbatim>\<open>Accept\<close> or \<^verbatim>\<open>Cancel\<close>, and when the call returns
  \<open>true\<close> the bar closes; closing a bar, by a button or without one, calls
  \<^verbatim>\<open>InfoBarClosed\<close> once.
\<close>

datatype InfoBarOutcome = OutcomeAccept | OutcomeDeny | OutcomeDismiss

definition InfoBarOutcomeEvent ::
  "InfoBarOutcome \<Rightarrow> NotificationPermissionInfoBarDelegate \<Rightarrow> state \<Rightarrow> state" where
  "InfoBarOutcomeEvent outcome d s =
     (case outcome of
        OutcomeAccept \<Rightarrow>
          (let (close_bar, d1, s1) = Accept d s
           in if close_bar then InfoBarClosed d1 s1 else s1)
      | OutcomeDeny \<Rightarrow>
          (let (close_bar, d1, s1) = Cancel d s
           in if close_bar then InfoBarClosed d1 s1 else s1)
      | OutcomeDismiss \<Rightarrow> InfoBarClosed d s)"

text \<open>
  One permission request from the call of \<^verbatim>\<open>RequestPermission\<close> to
  the outcome of every info bar the call added to the tab.
\<close>

definition PermissionRequestLifetime ::
  "origin_helpers \<Rightarrow> origin \<Rightarrow> int \<Rightarrow> int \<Rightarrow> int \<Rightarrow> TabContents option
     \<Rightarrow> InfoBarOutcome \<Rightarrow> state \<Rightarrow> state" where
  "PermissionRequestLifetime g origin process_id route_id callback_context tab outcome s =
     (let (tab1, s1) = RequestPermission g origin process_id route_id callback_context tab s;
          bars_before = (case tab of None \<Rightarrow> [] | Some t \<Rightarrow> infobar_delegates t);
          bars_after = (case tab1 of None \<Rightarrow> [] | Some t \<Rightarrow> infobar_delegates t);
          added = drop (length bars_before) bars_after
      in foldl (\<lambda>s2 d. InfoBarOutcomeEvent outcome d s2) s1 added)"

text \<open>
  The completion notices for one request (process id, route id, request id)
  that are in the queue of the IO thread.
\<close>

definition completion_notices :: "int \<Rightarrow> int \<Rightarrow> int \<Rightarrow> state \<Rightarrow> nat" where
  "completion_notices process_id route_id callback_context s =
     count_list (io_tasks s)
       (NotificationPermissionCallbackTask process_id route_id callback_context)"

subsection \<open>Sequences of calls\<close>

text \<open>
  The calls that change the store: \<^verbatim>\<open>PersistPermissionChange\<close>
  itself and through \<^verbatim>\<open>GrantPermission\<close> and
  \<^verbatim>\<open>DenyPermission\<close>, the two resets of one origin, the reset of all
  origins and the change of the default setting.
\<close>

datatype service_call =
  RecordDecision origin bool
| Grant origin
| Deny origin
| ResetAllowed origin
| ResetBlocked origin
| ResetAll
| SetDefault ContentSetting

fun run_call :: "service_call \<Rightarrow> state \<Rightarrow> state" where
  "run_call (RecordDecision origin is_allowed) s = PersistPermissionChange origin is_allowed s"
| "run_call (Grant origin) s = GrantPermission origin s"
| "run_call (Deny origin) s = DenyPermission origin s"
| "run_call (ResetAllowed origin) s = ResetAllowedOrigin origin s"
| "run_call (ResetBlocked origin) s = ResetBlockedOrigin origin s"
| "run_call ResetAll s = ResetAllOrigins s"
| "run_call (SetDefault setting) s = SetDefaultContentSetting setting s"

fun run_calls :: "service_call list \<Rightarrow> state \<Rightarrow> state" where
  "run_calls [] s = s"
| "run_calls (c # cs) s = run_calls cs (run_call c s)"

text \<open>
  The data model of the two lists: no origin twice in a list, no origin in
  both.
\<close>

definition lists_wellformed :: "state \<Rightarrow> bool" where
  "lists_wellformed s \<longleftrightarrow>
     distinct (GetAllowedOrigins s) \<and> distinct (GetBlockedOrigins s) \<and>
     set (GetAllowedOrigins s) \<inter> set (GetBlockedOrigins s) = {}"

text \<open>
  The state in which the constructor leaves things, given the profile and its
  preferences: it observes the preferences of a profile that is not off the
  record, and nothing has been posted, counted or logged yet.
\<close>

definition created :: "bool \<Rightarrow> int \<Rightarrow> string list \<Rightarrow> string list \<Rightarrow> state" where
  "created off_the_record default_pref allowed_sites denied_sites =
     StartObserving
       \<lparr>is_off_the_record = off_the_record,
        default_content_setting_pref = default_pref,
        allowed_origins_pref = allowed_sites, denied_origins_pref = denied_sites,
        scheduled_saves = 0, observing = False,
        io_tasks = [], histograms = [], dcheck_failures = []\<rparr>"

text \<open>Helpers for concrete runs: nothing is escaped, no extension is known.\<close>

definition plain_helpers :: string_helpers where
  "plain_helpers =
     \<lparr>EscapeForHTML = (\<lambda>text. text),
      GetRawDataResource = (\<lambda>resource. ''<html>$1</html>''),
      ReplaceStringPlaceholders = (\<lambda>template subst. template),
      EscapeQueryParamValue = (\<lambda>text. text)\<rparr>"

text \<open>
  Helpers for concrete runs on origins of the form \<open>scheme://host/\<close> with
  no user, password or port: the host stands between \<open>://\<close> and the next
  slash, an extension URL starts with \<open>chrome-extension://\<close>, and the
  profile has no extensions service.
\<close>

definition simple_host :: "origin \<Rightarrow> string" where
  "simple_host origin =
     takeWhile (\<lambda>c. c \<noteq> CHR ''/'') (drop 3 (dropWhile (\<lambda>c. c \<noteq> CHR '':'') origin))"

definition simple_origin_helpers :: origin_helpers where
  "simple_origin_helpers =
     \<lparr>SchemeIs_kExtensionScheme = (\<lambda>origin. take 19 origin = ''chrome-extension://''),
      host = simple_host, GetExtensionsService = None\<rparr>"

section \<open>Properties\<close>

subsection \<open>Removing from a list\<close>

lemma ListValue_Remove_snd: "snd (ListValue_Remove xs v) = remove1 v xs"
  by (induction xs) (auto split: prod.splits)

lemma ListValue_Remove_fst_ge: "- 1 \<le> fst (ListValue_Remove xs v)"
  by (induction xs) (auto split: prod.splits)

lemma ListValue_Remove_fst: "fst (ListValue_Remove xs v) = - 1 \<longleftrightarrow> v \<notin> set xs"
proof (induction xs)
  case Nil
  show ?case by simp
next
  case (Cons x xs)
  have "- 1 \<le> fst (ListValue_Remove xs v)" by (rule ListValue_Remove_fst_ge)
  with Cons show ?case by (auto split: prod.splits)
qed

lemma ListValue_Remove_eq:
  "ListValue_Remove xs v = (i, ys) \<Longrightarrow> ys = remove1 v xs \<and> (i = - 1 \<longleftrightarrow> v \<notin> set xs)"
  using ListValue_Remove_snd [of xs v] ListValue_Remove_fst [of xs v] by simp

subsection \<open>What each call does to the preferences\<close>

lemmas helper_defs =
  PostTask_def UMA_HISTOGRAM_COUNTS_def DCHECK_def Observe_def StartObserving_def
  StopObserving_def FireObservers_def ScopedPrefUpdate_def ScheduleSavePersistentPrefs_def
  SetInteger_def ClearPref_def

lemma PersistPermissionChange_lists_eq:
  "PersistPermissionChange_lists origin is_allowed a d =
     (if is_allowed
      then (origin \<notin> set a, origin \<in> set d,
            if origin \<in> set a then a else a @ [origin], remove1 origin d)
      else (origin \<in> set a, origin \<notin> set d,
            remove1 origin a, if origin \<in> set d then d else d @ [origin]))"
  by (auto simp: PersistPermissionChange_lists_def ListValue_AppendIfNotPresent_def
      split: prod.splits dest: ListValue_Remove_eq)

lemma PersistPermissionChange_allowed:
  "allowed_origins_pref (PersistPermissionChange origin is_allowed s) =
     (if is_off_the_record s then allowed_origins_pref s
      else if is_allowed
           then (if origin \<in> set (allowed_origins_pref s) then allowed_origins_pref s
                 else allowed_origins_pref s @ [origin])
           else remove1 origin (allowed_origins_pref s))"
  by (simp add: PersistPermissionChange_def PersistPermissionChange_lists_eq helper_defs
      Let_def split: pref_name.splits)

lemma PersistPermissionChange_denied:
  "denied_origins_pref (PersistPermissionChange origin is_allowed s) =
     (if is_off_the_record s then denied_origins_pref s
      else if is_allowed
           then remove1 origin (denied_origins_pref s)
           else (if origin \<in> set (denied_origins_pref s) then denied_origins_pref s
                 else denied_origins_pref s @ [origin]))"
  by (simp add: PersistPermissionChange_def PersistPermissionChange_lists_eq helper_defs
      Let_def split: pref_name.splits)

lemma PersistPermissionChange_frame:
  "is_off_the_record (PersistPermissionChange origin is_allowed s) = is_off_the_record s"
  "default_content_setting_pref (PersistPermissionChange origin is_allowed s) =
     default_content_setting_pref s"
  by (simp_all add: PersistPermissionChange_def PersistPermissionChange_lists_eq helper_defs
      Let_def split: pref_name.splits)

lemma ResetAllowedOrigin_prefs:
  "allowed_origins_pref (ResetAllowedOrigin origin s) =
     (if is_off_the_record s then allowed_origins_pref s
      else remove1 origin (allowed_origins_pref s))"
  "denied_origins_pref (ResetAllowedOrigin origin s) = denied_origins_pref s"
  "is_off_the_record (ResetAllowedOrigin origin s) = is_off_the_record s"
  "default_content_setting_pref (ResetAllowedOrigin origin s) = default_content_setting_pref s"
  by (auto simp: ResetAllowedOrigin_def helper_defs Let_def
      split: prod.splits pref_name.splits dest: ListValue_Remove_eq)

lemma ResetBlockedOrigin_prefs:
  "denied_origins_pref (ResetBlockedOrigin origin s) =
     (if is_off_the_record s then denied_origins_pref s
      else remove1 origin (denied_origins_pref s))"
  "allowed_origins_pref (ResetBlockedOrigin origin s) = allowed_origins_pref s"
  "is_off_the_record (ResetBlockedOrigin origin s) = is_off_the_record s"
  "default_content_setting_pref (ResetBlockedOrigin origin s) = default_content_setting_pref s"
  by (auto simp: ResetBlockedOrigin_def helper_defs Let_def
      split: prod.splits pref_name.splits dest: ListValue_Remove_eq)

lemma ResetAllOrigins_prefs:
  "allowed_origins_pref (ResetAllOrigins s) = []"
  "denied_origins_pref (ResetAllOrigins s) = []"
  "is_off_the_record (ResetAllOrigins s) = is_off_the_record s"
  "default_content_setting_pref (ResetAllOrigins s) = default_content_setting_pref s"
  by (simp_all add: ResetAllOrigins_def helper_defs Let_def)

lemma SetDefaultContentSetting_prefs:
  "default_content_setting_pref (SetDefaultContentSetting setting s) =
     ContentSettingToInt
       (if setting = CONTENT_SETTING_DEFAULT then kDefaultSetting else setting)"
  "allowed_origins_pref (SetDefaultContentSetting setting s) = allowed_origins_pref s"
  "denied_origins_pref (SetDefaultContentSetting setting s) = denied_origins_pref s"
  "is_off_the_record (SetDefaultContentSetting setting s) = is_off_the_record s"
  by (simp_all add: SetDefaultContentSetting_def helper_defs Let_def)

lemma GrantPermission_prefs:
  "allowed_origins_pref (GrantPermission origin s) =
     allowed_origins_pref (PersistPermissionChange origin True s)"
  "denied_origins_pref (GrantPermission origin s) =
     denied_origins_pref (PersistPermissionChange origin True s)"
  "is_off_the_record (GrantPermission origin s) = is_off_the_record s"
  "default_content_setting_pref (GrantPermission origin s) = default_content_setting_pref s"
  by (simp_all add: GrantPermission_def PostTask_def PersistPermissionChange_frame)

lemma DenyPermission_prefs:
  "allowed_origins_pref (DenyPermission origin s) =
     allowed_origins_pref (PersistPermissionChange origin False s)"
  "denied_origins_pref (DenyPermission origin s) =
     denied_origins_pref (PersistPermissionChange origin False s)"
  "is_off_the_record (DenyPermission origin s) = is_off_the_record s"
  "default_content_setting_pref (DenyPermission origin s) = default_content_setting_pref s"
  by (simp_all add: DenyPermission_def PostTask_def PersistPermissionChange_frame)

lemmas call_prefs =
  PersistPermissionChange_allowed PersistPermissionChange_denied PersistPermissionChange_frame
  ResetAllowedOrigin_prefs ResetBlockedOrigin_prefs ResetAllOrigins_prefs
  SetDefaultContentSetting_prefs GrantPermission_prefs DenyPermission_prefs

lemma run_call_is_off_the_record:
  "is_off_the_record (run_call c s) = is_off_the_record s"
  by (cases c) (simp_all add: call_prefs)

lemma run_calls_is_off_the_record:
  "is_off_the_record (run_calls cs s) = is_off_the_record s"
  by (induction cs arbitrary: s) (simp_all add: run_call_is_off_the_record)

lemma run_call_wellformed: "lists_wellformed s \<Longrightarrow> lists_wellformed (run_call c s)"
  by (cases c)
     (auto simp: lists_wellformed_def GetAllowedOrigins_def GetBlockedOrigins_def call_prefs)

lemma run_calls_wellformed: "lists_wellformed s \<Longrightarrow> lists_wellformed (run_calls cs s)"
  by (induction cs arbitrary: s) (simp_all add: run_call_wellformed)

subsection \<open>An origin is in at most one list\<close>

text \<open>
  C1. Start from lists that follow the data model (no origin twice in a list,
  none in both). After any sequence of calls that record a decision
  (\<^verbatim>\<open>PersistPermissionChange\<close>, also through
  \<^verbatim>\<open>GrantPermission\<close> and \<^verbatim>\<open>DenyPermission\<close>), reset an
  origin, reset all origins or set the default, no origin is both in the list
  of allowed origins and in the list of denied origins. The profile may be off
  the record or not.
\<close>

theorem origin_in_at_most_one_list:
  assumes "lists_wellformed s"
  shows "\<not> (origin \<in> set (GetAllowedOrigins (run_calls cs s)) \<and>
            origin \<in> set (GetBlockedOrigins (run_calls cs s)))"
proof -
  have "lists_wellformed (run_calls cs s)"
    using assms by (rule run_calls_wellformed)
  then show ?thesis
    by (auto simp: lists_wellformed_def)
qed

text \<open>
  The hypothesis holds for a new profile with empty lists; there, after a grant,
  a denial, another decision and a reset of the same origin, the origin is not
  in both lists.
\<close>

theorem origin_in_at_most_one_list_witness:
  "lists_wellformed (created False 3 [] []) \<and>
   \<not> (''http://a.example/'' \<in> set (GetAllowedOrigins
          (run_calls [Grant ''http://a.example/'', Deny ''http://a.example/'',
                      RecordDecision ''http://a.example/'' True,
                      ResetAllowed ''http://a.example/''] (created False 3 [] []))) \<and>
       ''http://a.example/'' \<in> set (GetBlockedOrigins
          (run_calls [Grant ''http://a.example/'', Deny ''http://a.example/'',
                      RecordDecision ''http://a.example/'' True,
                      ResetAllowed ''http://a.example/''] (created False 3 [] []))))"
proof -
  have wf: "lists_wellformed (created False 3 [] [])"
    by (simp add: lists_wellformed_def created_def StartObserving_def GetAllowedOrigins_def
        GetBlockedOrigins_def)
  from origin_in_at_most_one_list [OF wf] wf show ?thesis by blast
qed

subsection \<open>The permission query\<close>

text \<open>
  C2. On a profile that is not off the record, \<^verbatim>\<open>GetContentSetting\<close>
  answers ALLOW for an origin in the list of allowed origins, otherwise BLOCK
  for an origin in the list of denied origins, otherwise the default policy:
  the setting the stored integer \<open>default_content_setting_pref\<close> decodes
  to, with ASK for the sentinel. After
  \<^verbatim>\<open>PersistPermissionChange(origin, true)\<close> the answer for the origin is
  ALLOW. With lists that follow the data model, after
  \<^verbatim>\<open>PersistPermissionChange(origin, false)\<close> the answer is BLOCK, and
  after the reset of an origin in the list it is in (\<open>A\<close> allowed,
  \<open>B\<close> denied) the answer is the default policy as stored before the
  reset. The same holds after either reset of an origin \<open>N\<close> that is in
  neither list.
\<close>

theorem GetContentSetting_resolution:
  assumes "\<not> is_off_the_record s"
  shows
    "GetContentSetting origin s =
       (if origin \<in> set (GetAllowedOrigins s) then CONTENT_SETTING_ALLOW
        else if origin \<in> set (GetBlockedOrigins s) then CONTENT_SETTING_BLOCK
        else if IntToContentSetting (default_content_setting_pref s) = CONTENT_SETTING_DEFAULT
        then CONTENT_SETTING_ASK
        else IntToContentSetting (default_content_setting_pref s)) \<and>
     GetContentSetting origin (PersistPermissionChange origin True s) = CONTENT_SETTING_ALLOW \<and>
     (lists_wellformed s \<longrightarrow>
        GetContentSetting origin (PersistPermissionChange origin False s) =
          CONTENT_SETTING_BLOCK) \<and>
     (lists_wellformed s \<and> A \<in> set (GetAllowedOrigins s) \<longrightarrow>
        GetContentSetting A (ResetAllowedOrigin A s) =
          (if IntToContentSetting (default_content_setting_pref s) = CONTENT_SETTING_DEFAULT
           then CONTENT_SETTING_ASK
           else IntToContentSetting (default_content_setting_pref s))) \<and>
     (lists_wellformed s \<and> B \<in> set (GetBlockedOrigins s) \<longrightarrow>
        GetContentSetting B (ResetBlockedOrigin B s) =
          (if IntToContentSetting (default_content_setting_pref s) = CONTENT_SETTING_DEFAULT
           then CONTENT_SETTING_ASK
           else IntToContentSetting (default_content_setting_pref s))) \<and>
     (N \<notin> set (GetAllowedOrigins s) \<and> N \<notin> set (GetBlockedOrigins s) \<longrightarrow>
        GetContentSetting N (ResetAllowedOrigin N s) =
          (if IntToContentSetting (default_content_setting_pref s) = CONTENT_SETTING_DEFAULT
           then CONTENT_SETTING_ASK
           else IntToContentSetting (default_content_setting_pref s)) \<and>
        GetContentSetting N (ResetBlockedOrigin N s) =
          (if IntToContentSetting (default_content_setting_pref s) = CONTENT_SETTING_DEFAULT
           then CONTENT_SETTING_ASK
           else IntToContentSetting (default_content_setting_pref s)))"
  using assms
  by (auto simp: GetContentSetting_def GetAllowedOrigins_def GetBlockedOrigins_def
      GetDefaultContentSetting_def kDefaultSetting_def lists_wellformed_def call_prefs Let_def)

text \<open>
  A profile with one allowed and one denied origin and the stored default
  BLOCK (2) satisfies every hypothesis: a third origin resolves to BLOCK, to
  ALLOW once allowed and to BLOCK once denied, and every origin resolves to
  BLOCK once reset. With the stored default ALLOW (1) an unseen origin
  resolves to ALLOW, and the denied origin resolves to BLOCK before its reset
  and to ALLOW after it.
\<close>

theorem GetContentSetting_resolution_witness:
  "\<not> is_off_the_record (created False 2 [''http://a.example/''] [''http://b.example/'']) \<and>
   lists_wellformed (created False 2 [''http://a.example/''] [''http://b.example/'']) \<and>
   ''http://a.example/'' \<in> set (GetAllowedOrigins
      (created False 2 [''http://a.example/''] [''http://b.example/''])) \<and>
   ''http://b.example/'' \<in> set (GetBlockedOrigins
      (created False 2 [''http://a.example/''] [''http://b.example/''])) \<and>
   ''http://c.example/'' \<notin> set (GetAllowedOrigins
      (created False 2 [''http://a.example/''] [''http://b.example/''])) \<and>
   ''http://c.example/'' \<notin> set (GetBlockedOrigins
      (created False 2 [''http://a.example/''] [''http://b.example/''])) \<and>
   GetContentSetting ''http://c.example/''
      (created False 2 [''http://a.example/''] [''http://b.example/'']) =
      CONTENT_SETTING_BLOCK \<and>
   GetContentSetting ''http://c.example/''
      (PersistPermissionChange ''http://c.example/'' True
        (created False 2 [''http://a.example/''] [''http://b.example/''])) =
      CONTENT_SETTING_ALLOW \<and>
   GetContentSetting ''http://c.example/''
      (PersistPermissionChange ''http://c.example/'' False
        (created False 2 [''http://a.example/''] [''http://b.example/''])) =
      CONTENT_SETTING_BLOCK \<and>
   GetContentSetting ''http://a.example/''
      (ResetAllowedOrigin ''http://a.example/''
        (created False 2 [''http://a.example/''] [''http://b.example/''])) =
      CONTENT_SETTING_BLOCK \<and>
   GetContentSetting ''http://b.example/''
      (ResetBlockedOrigin ''http://b.example/''
        (created False 2 [''http://a.example/''] [''http://b.example/''])) =
      CONTENT_SETTING_BLOCK \<and>
   GetContentSetting ''http://c.example/''
      (ResetAllowedOrigin ''http://c.example/''
        (created False 2 [''http://a.example/''] [''http://b.example/''])) =
      CONTENT_SETTING_BLOCK \<and>
   \<not> is_off_the_record (created False 1 [] [''http://b.example/'']) \<and>
   lists_wellformed (created False 1 [] [''http://b.example/'']) \<and>
   ''http://b.example/'' \<in> set (GetBlockedOrigins
      (created False 1 [] [''http://b.example/''])) \<and>
   GetContentSetting ''http://c.example/'' (created False 1 [] [''http://b.example/'']) =
      CONTENT_SETTING_ALLOW \<and>
   GetContentSetting ''http://b.example/'' (created False 1 [] [''http://b.example/'']) =
      CONTENT_SETTING_BLOCK \<and>
   GetContentSetting ''http://b.example/''
      (ResetBlockedOrigin ''http://b.example/''
        (created False 1 [] [''http://b.example/''])) =
      CONTENT_SETTING_ALLOW"
proof -
  let ?s = "created False 2 [''http://a.example/''] [''http://b.example/'']"
  let ?u = "created False 1 [] [''http://b.example/'']"
  have s: "\<not> is_off_the_record ?s" "lists_wellformed ?s"
    "GetAllowedOrigins ?s = [''http://a.example/'']"
    "GetBlockedOrigins ?s = [''http://b.example/'']"
    "default_content_setting_pref ?s = 2"
    by (simp_all add: created_def StartObserving_def lists_wellformed_def
        GetAllowedOrigins_def GetBlockedOrigins_def)
  have u: "\<not> is_off_the_record ?u" "lists_wellformed ?u"
    "GetAllowedOrigins ?u = []"
    "GetBlockedOrigins ?u = [''http://b.example/'']"
    "default_content_setting_pref ?u = 1"
    by (simp_all add: created_def StartObserving_def lists_wellformed_def
        GetAllowedOrigins_def GetBlockedOrigins_def)
  have d: "IntToContentSetting 2 = CONTENT_SETTING_BLOCK"
    "IntToContentSetting 1 = CONTENT_SETTING_ALLOW"
    by (simp_all add: IntToContentSetting_def)
  from GetContentSetting_resolution
         [OF s(1), where origin = "''http://c.example/''" and A = "''http://a.example/''"
            and B = "''http://b.example/''" and N = "''http://c.example/''"]
       GetContentSetting_resolution
         [OF u(1), where origin = "''http://c.example/''" and A = "''http://a.example/''"
            and B = "''http://b.example/''" and N = "''http://c.example/''"]
       GetContentSetting_resolution
         [OF u(1), where origin = "''http://b.example/''" and A = "''http://a.example/''"
            and B = "''http://b.example/''" and N = "''http://c.example/''"]
       s u d
  show ?thesis by simp
qed

subsection \<open>Permission requests\<close>

lemma PersistPermissionChange_io_tasks:
  "io_tasks (PersistPermissionChange origin is_allowed s) = io_tasks s"
  by (simp add: PersistPermissionChange_def PersistPermissionChange_lists_eq helper_defs
      Let_def split: pref_name.splits)

lemma GetContentSetting_not_default: "GetContentSetting origin s \<noteq> CONTENT_SETTING_DEFAULT"
  by (simp add: GetContentSetting_def GetDefaultContentSetting_def kDefaultSetting_def Let_def)

text \<open>
  C3, as the code has it. For a call of \<^verbatim>\<open>RequestPermission\<close> with a
  tab: when \<^verbatim>\<open>GetContentSetting\<close> resolves the origin to ASK, one info
  bar for the request is added to the tab and nothing is posted; when it
  resolves to ALLOW or to BLOCK, the completion notice of the request is posted
  to the IO thread at once and the tab keeps its info bars; it never resolves
  to the sentinel. In particular, on a profile that is not off the record, with
  the default setting BLOCK and an origin in neither list, the notice is posted
  and no info bar is added. A call with a null tab returns the state as it
  was: nothing is posted and nothing is shown.
\<close>

theorem RequestPermission_behaviour:
  "(case GetContentSetting origin s of
      CONTENT_SETTING_ASK \<Rightarrow>
        RequestPermission g origin process_id route_id callback_context (Some tab) s =
          (Some (tab\<lparr>infobar_delegates := infobar_delegates tab @
             [\<lparr>m_origin = origin, m_display_name = DisplayNameForOrigin g origin,
               m_process_id = process_id, m_route_id = route_id,
               m_callback_context = callback_context, m_action_taken = False\<rparr>]\<rparr>), s)
    | CONTENT_SETTING_DEFAULT \<Rightarrow> False
    | _ \<Rightarrow>
        RequestPermission g origin process_id route_id callback_context (Some tab) s =
          (Some tab, s\<lparr>io_tasks := io_tasks s @
             [NotificationPermissionCallbackTask process_id route_id callback_context]\<rparr>)) \<and>
   (\<not> is_off_the_record s \<and> GetDefaultContentSetting s = CONTENT_SETTING_BLOCK \<and>
    origin \<notin> set (GetAllowedOrigins s) \<and> origin \<notin> set (GetBlockedOrigins s) \<longrightarrow>
      RequestPermission g origin process_id route_id callback_context (Some tab) s =
        (Some tab, s\<lparr>io_tasks := io_tasks s @
           [NotificationPermissionCallbackTask process_id route_id callback_context]\<rparr>)) \<and>
   RequestPermission g origin process_id route_id callback_context None s = (None, s)"
proof -
  have nd: "GetContentSetting origin s \<noteq> CONTENT_SETTING_DEFAULT"
    by (rule GetContentSetting_not_default)
  have blk: "GetContentSetting origin s = CONTENT_SETTING_BLOCK"
    if "\<not> is_off_the_record s" "GetDefaultContentSetting s = CONTENT_SETTING_BLOCK"
       "origin \<notin> set (GetAllowedOrigins s)" "origin \<notin> set (GetBlockedOrigins s)"
    using that by (simp add: GetContentSetting_def)
  show ?thesis
    using nd blk
    by (cases "GetContentSetting origin s")
       (auto simp: RequestPermission_def AddInfoBar_def PostTask_def Let_def)
qed

text \<open>
  The hypotheses of the second part hold for a new profile whose default
  setting is BLOCK (stored as 2): the request is answered at once.
\<close>

theorem RequestPermission_behaviour_witness:
  "\<not> is_off_the_record (created False 2 [] []) \<and>
   GetDefaultContentSetting (created False 2 [] []) = CONTENT_SETTING_BLOCK \<and>
   ''http://a.example/'' \<notin> set (GetAllowedOrigins (created False 2 [] [])) \<and>
   ''http://a.example/'' \<notin> set (GetBlockedOrigins (created False 2 [] [])) \<and>
   RequestPermission simple_origin_helpers ''http://a.example/'' 7 8 9
       (Some \<lparr>infobar_delegates = []\<rparr>) (created False 2 [] []) =
     (Some \<lparr>infobar_delegates = []\<rparr>,
      (created False 2 [] [])\<lparr>io_tasks := [NotificationPermissionCallbackTask 7 8 9]\<rparr>)"
proof -
  let ?s = "created False 2 [] []"
  have h: "\<not> is_off_the_record ?s"
    "GetDefaultContentSetting ?s = CONTENT_SETTING_BLOCK"
    "''http://a.example/'' \<notin> set (GetAllowedOrigins ?s)"
    "''http://a.example/'' \<notin> set (GetBlockedOrigins ?s)"
    "io_tasks ?s = []"
    by (simp_all add: created_def StartObserving_def GetDefaultContentSetting_def
        IntToContentSetting_def GetAllowedOrigins_def GetBlockedOrigins_def)
  from RequestPermission_behaviour
         [where origin = "''http://a.example/''" and s = ?s and g = simple_origin_helpers
            and process_id = 7 and route_id = 8 and callback_context = 9
            and tab = "\<lparr>infobar_delegates = []\<rparr>"] h
  show ?thesis by simp
qed

text \<open>
  C3 as stated fails in two places. With a null tab the function returns at
  once: the origin below is allowed, yet nothing is posted and the state is as
  before. And on a profile that is off the record the query answers ASK
  whatever the preferences say: with the stored default BLOCK and an origin
  never seen, the info bar is added.
\<close>

theorem RequestPermission_null_tab_counterexample:
  "GetContentSetting ''http://a.example/'' (created False 3 [''http://a.example/''] []) =
     CONTENT_SETTING_ALLOW \<and>
   RequestPermission simple_origin_helpers ''http://a.example/'' 7 8 9 None
       (created False 3 [''http://a.example/''] []) =
     (None, created False 3 [''http://a.example/''] []) \<and>
   io_tasks (created False 3 [''http://a.example/''] []) = [] \<and>
   is_off_the_record (created True 2 [] []) \<and>
   GetDefaultContentSetting (created True 2 [] []) = CONTENT_SETTING_BLOCK \<and>
   fst (RequestPermission simple_origin_helpers ''http://a.example/'' 7 8 9
          (Some \<lparr>infobar_delegates = []\<rparr>) (created True 2 [] [])) =
     Some \<lparr>infobar_delegates =
       [\<lparr>m_origin = ''http://a.example/'', m_display_name = ''a.example'',
         m_process_id = 7, m_route_id = 8, m_callback_context = 9,
         m_action_taken = False\<rparr>]\<rparr>"
  by (simp add: created_def StartObserving_def GetContentSetting_def GetAllowedOrigins_def
      GetBlockedOrigins_def GetDefaultContentSetting_def IntToContentSetting_def
      kDefaultSetting_def RequestPermission_def AddInfoBar_def DisplayNameForOrigin_def
      simple_origin_helpers_def simple_host_def Let_def)

subsection \<open>One completion notice for each request\<close>

lemma InfoBarOutcomeEvent_notices:
  "completion_notices (m_process_id d) (m_route_id d) (m_callback_context d)
     (InfoBarOutcomeEvent outcome d s) =
   completion_notices (m_process_id d) (m_route_id d) (m_callback_context d) s + 1"
  by (cases outcome)
     (simp_all add: InfoBarOutcomeEvent_def Accept_def Cancel_def InfoBarClosed_def
       GrantPermission_def DenyPermission_def completion_notices_def
       PersistPermissionChange_io_tasks PostTask_def UMA_HISTOGRAM_COUNTS_def Let_def)

lemma Accept_Cancel_io_tasks:
  "io_tasks (snd (snd (Accept d s))) = io_tasks s @ [CacheAllowedOrigin (m_origin d)]"
  "io_tasks (snd (snd (Cancel d s))) = io_tasks s @ [CacheDeniedOrigin (m_origin d)]"
  by (simp_all add: Accept_def Cancel_def GrantPermission_def DenyPermission_def
      PersistPermissionChange_io_tasks PostTask_def UMA_HISTOGRAM_COUNTS_def Let_def)

lemma InfoBarClosed_io_tasks:
  "io_tasks (InfoBarClosed d s) =
     io_tasks s @ [NotificationPermissionCallbackTask
                     (m_process_id d) (m_route_id d) (m_callback_context d)]"
  by (simp add: InfoBarClosed_def PostTask_def UMA_HISTOGRAM_COUNTS_def Let_def)

text \<open>
  C4, as the code has it. A permission request made with a tab ends with
  exactly one more completion notice for its process id, route id and request
  id in the queue of the IO thread. When the origin does not resolve to ASK,
  \<^verbatim>\<open>RequestPermission\<close> posts it at once and nothing follows. When
  the origin resolves to ASK, the call posts nothing, and the notice comes with
  the outcome of the info bar: \<^verbatim>\<open>Accept\<close> and \<^verbatim>\<open>Cancel\<close>
  return \<open>true\<close> and post only the update of the cache,
  \<^verbatim>\<open>InfoBarClosed\<close> posts the notice, so each of the three outcomes
  ends with the notice as the last task posted. A request made with a null tab
  changes nothing at all, so no notice is posted for it. The outcome of the
  info bar is an input here: that a bar is closed at some time is the
  framework's matter.
\<close>

theorem exactly_one_completion_notice:
  "completion_notices process_id route_id callback_context
     (PermissionRequestLifetime g origin process_id route_id callback_context
        (Some tab) outcome s) =
     completion_notices process_id route_id callback_context s + 1 \<and>
   (if GetContentSetting origin s = CONTENT_SETTING_ASK
    then io_tasks (snd (RequestPermission g origin process_id route_id callback_context
                          (Some tab) s)) = io_tasks s \<and>
         PermissionRequestLifetime g origin process_id route_id callback_context
             (Some tab) outcome s =
           InfoBarOutcomeEvent outcome
             \<lparr>m_origin = origin, m_display_name = DisplayNameForOrigin g origin,
              m_process_id = process_id, m_route_id = route_id,
              m_callback_context = callback_context, m_action_taken = False\<rparr> s
    else io_tasks (snd (RequestPermission g origin process_id route_id callback_context
                          (Some tab) s)) =
           io_tasks s @
             [NotificationPermissionCallbackTask process_id route_id callback_context] \<and>
         PermissionRequestLifetime g origin process_id route_id callback_context
             (Some tab) outcome s =
           snd (RequestPermission g origin process_id route_id callback_context
                  (Some tab) s)) \<and>
   fst (Accept d s) \<and>
   io_tasks (snd (snd (Accept d s))) = io_tasks s @ [CacheAllowedOrigin (m_origin d)] \<and>
   fst (Cancel d s) \<and>
   io_tasks (snd (snd (Cancel d s))) = io_tasks s @ [CacheDeniedOrigin (m_origin d)] \<and>
   io_tasks (InfoBarClosed d s) =
     io_tasks s @ [NotificationPermissionCallbackTask
                     (m_process_id d) (m_route_id d) (m_callback_context d)] \<and>
   io_tasks (InfoBarOutcomeEvent outcome d s) =
     io_tasks s @
       (case outcome of
          OutcomeAccept \<Rightarrow> [CacheAllowedOrigin (m_origin d)]
        | OutcomeDeny \<Rightarrow> [CacheDeniedOrigin (m_origin d)]
        | OutcomeDismiss \<Rightarrow> []) @
       [NotificationPermissionCallbackTask
          (m_process_id d) (m_route_id d) (m_callback_context d)] \<and>
   PermissionRequestLifetime g origin process_id route_id callback_context None outcome s = s"
proof -
  let ?d = "\<lparr>m_origin = origin, m_display_name = DisplayNameForOrigin g origin,
              m_process_id = process_id, m_route_id = route_id,
              m_callback_context = callback_context, m_action_taken = False\<rparr>"
  have life: "PermissionRequestLifetime g origin process_id route_id callback_context
        (Some tab) outcome s =
      (if GetContentSetting origin s = CONTENT_SETTING_ASK
       then InfoBarOutcomeEvent outcome ?d s
       else snd (RequestPermission g origin process_id route_id callback_context
                   (Some tab) s))"
    by (simp add: PermissionRequestLifetime_def RequestPermission_def AddInfoBar_def Let_def)
  have req: "io_tasks (snd (RequestPermission g origin process_id route_id callback_context
                          (Some tab) s)) =
      (if GetContentSetting origin s = CONTENT_SETTING_ASK then io_tasks s
       else io_tasks s @
              [NotificationPermissionCallbackTask process_id route_id callback_context])"
    by (simp add: RequestPermission_def PostTask_def Let_def)
  have total: "completion_notices process_id route_id callback_context
     (PermissionRequestLifetime g origin process_id route_id callback_context
        (Some tab) outcome s) =
     completion_notices process_id route_id callback_context s + 1"
    using InfoBarOutcomeEvent_notices [where d = ?d and outcome = outcome and s = s]
    by (simp add: life) (simp add: completion_notices_def req)
  have acc: "fst (Accept d s)" "fst (Cancel d s)"
    by (simp_all add: Accept_def Cancel_def Let_def)
  have ev: "io_tasks (InfoBarOutcomeEvent outcome d s) =
     io_tasks s @
       (case outcome of
          OutcomeAccept \<Rightarrow> [CacheAllowedOrigin (m_origin d)]
        | OutcomeDeny \<Rightarrow> [CacheDeniedOrigin (m_origin d)]
        | OutcomeDismiss \<Rightarrow> []) @
       [NotificationPermissionCallbackTask
          (m_process_id d) (m_route_id d) (m_callback_context d)]"
    by (cases outcome)
       (simp_all add: InfoBarOutcomeEvent_def Accept_def Cancel_def InfoBarClosed_def
         GrantPermission_def DenyPermission_def PersistPermissionChange_io_tasks
         PostTask_def UMA_HISTOGRAM_COUNTS_def Let_def)
  have none: "PermissionRequestLifetime g origin process_id route_id callback_context
      None outcome s = s"
    by (simp add: PermissionRequestLifetime_def RequestPermission_def)
  show ?thesis
    using total life req acc Accept_Cancel_io_tasks [of d s] InfoBarClosed_io_tasks [of d s]
      ev none
    by simp
qed

text \<open>
  C4 as stated fails for a request made with a null tab:
  \<^verbatim>\<open>RequestPermission\<close> returns before anything is posted or shown, so
  no completion notice is ever posted for it.
\<close>

theorem no_completion_notice_counterexample:
  "completion_notices 7 8 9
     (PermissionRequestLifetime simple_origin_helpers ''http://a.example/'' 7 8 9 None
        OutcomeDismiss
        (created False 3 [] [])) = 0"
  by (simp add: PermissionRequestLifetime_def RequestPermission_def completion_notices_def
      created_def StartObserving_def)

subsection \<open>Profiles that are off the record\<close>

lemma off_the_record_writes_ignored:
  "is_off_the_record s \<Longrightarrow>
     PersistPermissionChange origin is_allowed s = s \<and>
     ResetAllowedOrigin origin s = s \<and> ResetBlockedOrigin origin s = s"
  by (simp add: PersistPermissionChange_def ResetAllowedOrigin_def ResetBlockedOrigin_def)

text \<open>
  C5. On a profile that is off the record, \<^verbatim>\<open>PersistPermissionChange\<close>,
  \<^verbatim>\<open>ResetAllowedOrigin\<close> and \<^verbatim>\<open>ResetBlockedOrigin\<close> return
  at once and leave the whole state as it was (the lemma above).
  \<^verbatim>\<open>ResetAllOrigins\<close> has no such test: on the off-the-record profile
  below, whose preferences hold one allowed and one denied origin, it empties
  both lists, where the three others change nothing.
\<close>

theorem ResetAllOrigins_off_the_record_clears:
  "is_off_the_record (created True 3 [''http://a.example/''] [''http://b.example/'']) \<and>
   allowed_origins_pref (created True 3 [''http://a.example/''] [''http://b.example/'']) =
     [''http://a.example/''] \<and>
   denied_origins_pref (created True 3 [''http://a.example/''] [''http://b.example/'']) =
     [''http://b.example/''] \<and>
   allowed_origins_pref
     (ResetAllOrigins (created True 3 [''http://a.example/''] [''http://b.example/''])) = [] \<and>
   denied_origins_pref
     (ResetAllOrigins (created True 3 [''http://a.example/''] [''http://b.example/''])) = [] \<and>
   PersistPermissionChange ''http://a.example/'' False
     (created True 3 [''http://a.example/''] [''http://b.example/'']) =
     created True 3 [''http://a.example/''] [''http://b.example/''] \<and>
   ResetAllowedOrigin ''http://a.example/''
     (created True 3 [''http://a.example/''] [''http://b.example/'']) =
     created True 3 [''http://a.example/''] [''http://b.example/''] \<and>
   ResetBlockedOrigin ''http://b.example/''
     (created True 3 [''http://a.example/''] [''http://b.example/'']) =
     created True 3 [''http://a.example/''] [''http://b.example/'']"
  by (simp add: created_def StartObserving_def ResetAllOrigins_def ClearPref_def
      FireObservers_def PersistPermissionChange_def ResetAllowedOrigin_def
      ResetBlockedOrigin_def Let_def)

subsection \<open>Recording a decision twice\<close>

lemma PersistPermissionChange_observing:
  "\<not> is_off_the_record s \<Longrightarrow> observing (PersistPermissionChange origin is_allowed s)"
  by (simp add: PersistPermissionChange_def PersistPermissionChange_lists_eq helper_defs
      Let_def split: pref_name.splits)

lemma PersistPermissionChange_unchanged:
  assumes "\<not> is_off_the_record s" "observing s"
    and "PersistPermissionChange_lists origin is_allowed
           (allowed_origins_pref s) (denied_origins_pref s) =
         (False, False, allowed_origins_pref s, denied_origins_pref s)"
  shows "PersistPermissionChange origin is_allowed s = s"
  using assms by (simp add: PersistPermissionChange_def StopObserving_def StartObserving_def)

text \<open>
  C6. With lists that follow the data model,
  \<^verbatim>\<open>PersistPermissionChange(origin, is_allowed)\<close> called a second time
  with the same arguments leaves the state exactly as the first call left it;
  in particular it schedules no save. On a profile that is not off the record
  the second call finds \<open>allowed_changed\<close> and \<open>denied_changed\<close> both
  false and the lists as they are. This holds for \<open>is_allowed\<close> true and
  false alike.
\<close>

theorem PersistPermissionChange_idempotent:
  assumes "lists_wellformed s"
  shows
    "PersistPermissionChange origin is_allowed (PersistPermissionChange origin is_allowed s) =
       PersistPermissionChange origin is_allowed s \<and>
     scheduled_saves
       (PersistPermissionChange origin is_allowed (PersistPermissionChange origin is_allowed s)) =
       scheduled_saves (PersistPermissionChange origin is_allowed s) \<and>
     (\<not> is_off_the_record s \<longrightarrow>
        PersistPermissionChange_lists origin is_allowed
          (allowed_origins_pref (PersistPermissionChange origin is_allowed s))
          (denied_origins_pref (PersistPermissionChange origin is_allowed s)) =
          (False, False,
           allowed_origins_pref (PersistPermissionChange origin is_allowed s),
           denied_origins_pref (PersistPermissionChange origin is_allowed s)))"
proof (cases "is_off_the_record s")
  case True
  then show ?thesis by (simp add: PersistPermissionChange_def)
next
  case False
  let ?s1 = "PersistPermissionChange origin is_allowed s"
  from assms have d: "distinct (allowed_origins_pref s)" "distinct (denied_origins_pref s)"
    by (simp_all add: lists_wellformed_def GetAllowedOrigins_def GetBlockedOrigins_def)
  have flags: "PersistPermissionChange_lists origin is_allowed
       (allowed_origins_pref ?s1) (denied_origins_pref ?s1) =
       (False, False, allowed_origins_pref ?s1, denied_origins_pref ?s1)"
    using False d
    by (auto simp: PersistPermissionChange_lists_eq PersistPermissionChange_allowed
        PersistPermissionChange_denied remove1_idem)
  have "PersistPermissionChange origin is_allowed ?s1 = ?s1"
    using False flags
    by (intro PersistPermissionChange_unchanged)
       (simp_all add: PersistPermissionChange_frame PersistPermissionChange_observing)
  with flags show ?thesis by simp
qed

text \<open>
  A new profile with one denied origin satisfies the hypotheses; allowing that
  origin twice gives the same state as allowing it once, and the second call
  changes neither list.
\<close>

theorem PersistPermissionChange_idempotent_witness:
  "lists_wellformed (created False 3 [] [''http://a.example/'']) \<and>
   \<not> is_off_the_record (created False 3 [] [''http://a.example/'']) \<and>
   PersistPermissionChange ''http://a.example/'' True
     (PersistPermissionChange ''http://a.example/'' True
        (created False 3 [] [''http://a.example/''])) =
     PersistPermissionChange ''http://a.example/'' True
        (created False 3 [] [''http://a.example/'']) \<and>
   scheduled_saves
     (PersistPermissionChange ''http://a.example/'' True
        (PersistPermissionChange ''http://a.example/'' True
           (created False 3 [] [''http://a.example/'']))) =
     scheduled_saves
       (PersistPermissionChange ''http://a.example/'' True
          (created False 3 [] [''http://a.example/''])) \<and>
   PersistPermissionChange_lists ''http://a.example/'' True
     (allowed_origins_pref
        (PersistPermissionChange ''http://a.example/'' True
           (created False 3 [] [''http://a.example/''])))
     (denied_origins_pref
        (PersistPermissionChange ''http://a.example/'' True
           (created False 3 [] [''http://a.example/'']))) =
     (False, False, [''http://a.example/''], [])"
proof -
  let ?s = "created False 3 [] [''http://a.example/'']"
  have wf: "lists_wellformed ?s"
    by (simp add: lists_wellformed_def created_def StartObserving_def GetAllowedOrigins_def
        GetBlockedOrigins_def)
  have otr: "\<not> is_off_the_record ?s"
    by (simp add: created_def StartObserving_def)
  have lists: "allowed_origins_pref (PersistPermissionChange ''http://a.example/'' True ?s) =
      [''http://a.example/'']"
    "denied_origins_pref (PersistPermissionChange ''http://a.example/'' True ?s) = []"
    by (simp_all add: PersistPermissionChange_allowed PersistPermissionChange_denied
        created_def StartObserving_def)
  from PersistPermissionChange_idempotent
         [OF wf, where origin = "''http://a.example/''" and is_allowed = True]
       wf otr lists
  show ?thesis by simp
qed

subsection \<open>The layout of a text notification\<close>

text \<open>
  C7, as the code has it. \<^verbatim>\<open>CreateDataUrl\<close> takes the icon template
  when the icon's URL is valid; otherwise the one-line template when the title
  or the body is empty (also when both are); otherwise the two-line template.
  In every case the last substitution is \<open>rtl\<close> for a right-to-left
  notification and \<open>ltr\<close> for any other, and the URL returned is built from
  the chosen template and these substitutions.
\<close>

theorem CreateDataUrl_layout:
  "fst (CreateDataUrl_template h icon_url title body dir) =
     (if is_valid icon_url then IDR_NOTIFICATION_ICON_HTML
      else if title = [] \<or> body = [] then IDR_NOTIFICATION_1LINE_HTML
      else IDR_NOTIFICATION_2LINE_HTML) \<and>
   last (snd (CreateDataUrl_template h icon_url title body dir)) =
     (if dir = WebTextDirectionRightToLeft then ''rtl'' else ''ltr'') \<and>
   CreateDataUrl h icon_url title body dir =
     (let template_html =
            GetRawDataResource h (fst (CreateDataUrl_template h icon_url title body dir))
      in if template_html = [] then []
         else ''data:text/html;charset=utf-8,'' @
              EscapeQueryParamValue h
                (ReplaceStringPlaceholders h template_html
                   (snd (CreateDataUrl_template h icon_url title body dir))))"
  by (simp add: CreateDataUrl_template_def CreateDataUrl_def Let_def split: prod.splits)

text \<open>
  C7 as stated fails when there is no icon and title and body are both empty:
  "exactly one of title and body is non-empty" is false, so the claim's layout
  is the two-line one, while the code takes the one-line template.
\<close>

theorem CreateDataUrl_both_empty_counterexample:
  "fst (CreateDataUrl_template plain_helpers \<lparr>is_valid = False, spec = ''''\<rparr> '''' ''''
          WebTextDirectionLeftToRight) = IDR_NOTIFICATION_1LINE_HTML \<and>
   Render_layout_as_specified \<lparr>is_valid = False, spec = ''''\<rparr> '''' '''' =
     IDR_NOTIFICATION_2LINE_HTML"
  by (simp add: CreateDataUrl_template_def Render_layout_as_specified_def)

subsection \<open>Resetting one origin\<close>

lemma ResetAllowedOrigin_dcheck:
  "\<not> is_off_the_record s \<Longrightarrow>
     dcheck_failures (ResetAllowedOrigin origin s) =
       (if origin \<in> set (allowed_origins_pref s) then dcheck_failures s
        else dcheck_failures s @ [origin @ '' was not allowed''])"
  by (auto simp: ResetAllowedOrigin_def helper_defs Let_def
      split: prod.splits pref_name.splits dest: ListValue_Remove_eq)

lemma ResetBlockedOrigin_dcheck:
  "\<not> is_off_the_record s \<Longrightarrow>
     dcheck_failures (ResetBlockedOrigin origin s) =
       (if origin \<in> set (denied_origins_pref s) then dcheck_failures s
        else dcheck_failures s @ [origin @ '' was not blocked''])"
  by (auto simp: ResetBlockedOrigin_def helper_defs Let_def
      split: prod.splits pref_name.splits dest: ListValue_Remove_eq)

text \<open>
  A reset on a profile that is not off the record announces the list and
  schedules a save in either case, also when the origin was not in the list.
\<close>

lemma ResetOrigin_scheduled_saves:
  "\<not> is_off_the_record s \<Longrightarrow>
     scheduled_saves (ResetAllowedOrigin origin s) = Suc (scheduled_saves s) \<and>
     scheduled_saves (ResetBlockedOrigin origin s) = Suc (scheduled_saves s)"
  by (auto simp: ResetAllowedOrigin_def ResetBlockedOrigin_def helper_defs Let_def
      split: prod.splits pref_name.splits)

lemma ResetOrigin_io_tasks:
  "\<not> is_off_the_record s \<Longrightarrow>
     io_tasks (ResetAllowedOrigin origin s) =
       (if observing s
        then io_tasks s @ [SetCacheAllowedOrigins (remove1 origin (allowed_origins_pref s))]
        else io_tasks s) \<and>
     io_tasks (ResetBlockedOrigin origin s) =
       (if observing s
        then io_tasks s @ [SetCacheDeniedOrigins (remove1 origin (denied_origins_pref s))]
        else io_tasks s)"
  by (auto simp: ResetAllowedOrigin_def ResetBlockedOrigin_def helper_defs Let_def
      GetAllowedOrigins_def GetBlockedOrigins_def
      split: prod.splits pref_name.splits dest: ListValue_Remove_eq)

text \<open>
  C8, as the code has it. On a profile that is not off the record,
  \<^verbatim>\<open>ResetAllowedOrigin\<close> takes an origin that is in the list of
  allowed origins out of it (its first entry; with no origin twice in the list
  the origin is then gone) and no \<^verbatim>\<open>DCHECK\<close> fails. For an origin
  that is not in the list the \<^verbatim>\<open>DCHECK\<close> fails with its message and
  the list stays as it is. Either way the other list and the default setting
  are untouched, and either way the call goes on after the
  \<^verbatim>\<open>DCHECK\<close>: it schedules a save, and while the service observes
  its preferences the whole list is posted to the cache.
  \<^verbatim>\<open>ResetBlockedOrigin\<close> does the same on the list of denied origins.
\<close>

theorem ResetOrigin_on_regular_profile:
  assumes "\<not> is_off_the_record s"
  shows
    "(if origin \<in> set (GetAllowedOrigins s)
      then GetAllowedOrigins (ResetAllowedOrigin origin s) =
             remove1 origin (GetAllowedOrigins s) \<and>
           dcheck_failures (ResetAllowedOrigin origin s) = dcheck_failures s
      else GetAllowedOrigins (ResetAllowedOrigin origin s) = GetAllowedOrigins s \<and>
           dcheck_failures (ResetAllowedOrigin origin s) =
             dcheck_failures s @ [origin @ '' was not allowed'']) \<and>
     GetBlockedOrigins (ResetAllowedOrigin origin s) = GetBlockedOrigins s \<and>
     default_content_setting_pref (ResetAllowedOrigin origin s) =
       default_content_setting_pref s \<and>
     (distinct (GetAllowedOrigins s) \<longrightarrow>
        origin \<notin> set (GetAllowedOrigins (ResetAllowedOrigin origin s))) \<and>
     scheduled_saves (ResetAllowedOrigin origin s) = Suc (scheduled_saves s) \<and>
     io_tasks (ResetAllowedOrigin origin s) =
       (if observing s
        then io_tasks s @ [SetCacheAllowedOrigins (remove1 origin (GetAllowedOrigins s))]
        else io_tasks s) \<and>
     (if origin \<in> set (GetBlockedOrigins s)
      then GetBlockedOrigins (ResetBlockedOrigin origin s) =
             remove1 origin (GetBlockedOrigins s) \<and>
           dcheck_failures (ResetBlockedOrigin origin s) = dcheck_failures s
      else GetBlockedOrigins (ResetBlockedOrigin origin s) = GetBlockedOrigins s \<and>
           dcheck_failures (ResetBlockedOrigin origin s) =
             dcheck_failures s @ [origin @ '' was not blocked'']) \<and>
     GetAllowedOrigins (ResetBlockedOrigin origin s) = GetAllowedOrigins s \<and>
     default_content_setting_pref (ResetBlockedOrigin origin s) =
       default_content_setting_pref s \<and>
     (distinct (GetBlockedOrigins s) \<longrightarrow>
        origin \<notin> set (GetBlockedOrigins (ResetBlockedOrigin origin s))) \<and>
     scheduled_saves (ResetBlockedOrigin origin s) = Suc (scheduled_saves s) \<and>
     io_tasks (ResetBlockedOrigin origin s) =
       (if observing s
        then io_tasks s @ [SetCacheDeniedOrigins (remove1 origin (GetBlockedOrigins s))]
        else io_tasks s)"
  using assms ResetOrigin_scheduled_saves [OF assms, of origin]
    ResetOrigin_io_tasks [OF assms, of origin]
  by (simp add: GetAllowedOrigins_def GetBlockedOrigins_def ResetAllowedOrigin_prefs
      ResetBlockedOrigin_prefs ResetAllowedOrigin_dcheck ResetBlockedOrigin_dcheck
      remove1_idem)

text \<open>
  On a profile with one allowed and one denied origin, the reset of the
  allowed origin empties the list of allowed origins with no failed
  \<^verbatim>\<open>DCHECK\<close>; the reset of the same origin as a blocked one changes
  neither list and records the failure; each schedules a save and posts the
  list to the cache.
\<close>

theorem ResetOrigin_on_regular_profile_witness:
  "\<not> is_off_the_record (created False 3 [''http://a.example/''] [''http://b.example/'']) \<and>
   distinct (GetAllowedOrigins
      (created False 3 [''http://a.example/''] [''http://b.example/''])) \<and>
   distinct (GetBlockedOrigins
      (created False 3 [''http://a.example/''] [''http://b.example/''])) \<and>
   GetAllowedOrigins (ResetAllowedOrigin ''http://a.example/''
      (created False 3 [''http://a.example/''] [''http://b.example/''])) = [] \<and>
   dcheck_failures (ResetAllowedOrigin ''http://a.example/''
      (created False 3 [''http://a.example/''] [''http://b.example/''])) = [] \<and>
   scheduled_saves (ResetAllowedOrigin ''http://a.example/''
      (created False 3 [''http://a.example/''] [''http://b.example/''])) = 1 \<and>
   io_tasks (ResetAllowedOrigin ''http://a.example/''
      (created False 3 [''http://a.example/''] [''http://b.example/''])) =
     [SetCacheAllowedOrigins []] \<and>
   GetBlockedOrigins (ResetBlockedOrigin ''http://a.example/''
      (created False 3 [''http://a.example/''] [''http://b.example/''])) =
     [''http://b.example/''] \<and>
   GetAllowedOrigins (ResetBlockedOrigin ''http://a.example/''
      (created False 3 [''http://a.example/''] [''http://b.example/''])) =
     [''http://a.example/''] \<and>
   dcheck_failures (ResetBlockedOrigin ''http://a.example/''
      (created False 3 [''http://a.example/''] [''http://b.example/''])) =
     [''http://a.example/ was not blocked''] \<and>
   scheduled_saves (ResetBlockedOrigin ''http://a.example/''
      (created False 3 [''http://a.example/''] [''http://b.example/''])) = 1 \<and>
   io_tasks (ResetBlockedOrigin ''http://a.example/''
      (created False 3 [''http://a.example/''] [''http://b.example/''])) =
     [SetCacheDeniedOrigins [''http://b.example/'']]"
proof -
  let ?s = "created False 3 [''http://a.example/''] [''http://b.example/'']"
  have h: "\<not> is_off_the_record ?s"
    by (simp add: created_def StartObserving_def)
  have l: "GetAllowedOrigins ?s = [''http://a.example/'']"
    "GetBlockedOrigins ?s = [''http://b.example/'']"
    "dcheck_failures ?s = []" "scheduled_saves ?s = 0" "io_tasks ?s = []" "observing ?s"
    by (simp_all add: created_def StartObserving_def GetAllowedOrigins_def
        GetBlockedOrigins_def)
  from ResetOrigin_on_regular_profile [OF h, where origin = "''http://a.example/''"] h l
  show ?thesis by simp
qed

text \<open>
  C8 as stated fails in its "no state change": on a profile that is not off
  the record, the reset of an origin that is not in the list of allowed
  origins leaves the lists alone but schedules a save and posts the list to
  the cache, so the state after the call is not the state before it.
\<close>

theorem ResetOrigin_misuse_changes_state_counterexample:
  "\<not> is_off_the_record (created False 3 [''http://a.example/''] []) \<and>
   ''http://c.example/'' \<notin> set (GetAllowedOrigins
      (created False 3 [''http://a.example/''] [])) \<and>
   scheduled_saves (created False 3 [''http://a.example/''] []) = 0 \<and>
   scheduled_saves (ResetAllowedOrigin ''http://c.example/''
      (created False 3 [''http://a.example/''] [])) = 1 \<and>
   io_tasks (created False 3 [''http://a.example/''] []) = [] \<and>
   io_tasks (ResetAllowedOrigin ''http://c.example/''
      (created False 3 [''http://a.example/''] [])) =
     [SetCacheAllowedOrigins [''http://a.example/'']] \<and>
   ResetAllowedOrigin ''http://c.example/'' (created False 3 [''http://a.example/''] []) \<noteq>
     created False 3 [''http://a.example/''] []"
proof -
  let ?s = "created False 3 [''http://a.example/''] []"
  have h: "\<not> is_off_the_record ?s" "observing ?s" "scheduled_saves ?s = 0" "io_tasks ?s = []"
    "allowed_origins_pref ?s = [''http://a.example/'']"
    by (simp_all add: created_def StartObserving_def)
  have saves: "scheduled_saves (ResetAllowedOrigin ''http://c.example/'' ?s) = 1"
    using ResetOrigin_scheduled_saves [OF h(1), of "''http://c.example/''"] h by simp
  have tasks: "io_tasks (ResetAllowedOrigin ''http://c.example/'' ?s) =
      [SetCacheAllowedOrigins [''http://a.example/'']]"
    using ResetOrigin_io_tasks [OF h(1), of "''http://c.example/''"] h by simp
  have "ResetAllowedOrigin ''http://c.example/'' ?s \<noteq> ?s"
    using saves h(3) by (metis zero_neq_one)
  with saves tasks h show ?thesis
    by (simp add: GetAllowedOrigins_def)
qed

subsection \<open>The default setting\<close>

lemma IntToContentSetting_ContentSettingToInt:
  "IntToContentSetting (ContentSettingToInt setting) = setting"
  by (cases setting) (simp_all add: IntToContentSetting_def)

text \<open>
  C9. \<^verbatim>\<open>SetDefaultContentSetting\<close> stores the integer of ASK for the
  sentinel and the integer of the setting otherwise, so the stored integer is
  never the sentinel's and never decodes to it.
  \<^verbatim>\<open>GetDefaultContentSetting\<close> never returns the sentinel: it returns
  ASK when the stored integer decodes to the sentinel, and the decoded setting
  otherwise. Reading after writing gives the setting written, with ASK for the
  sentinel.
\<close>

theorem default_setting_never_the_sentinel:
  "default_content_setting_pref (SetDefaultContentSetting setting s) =
     ContentSettingToInt
       (if setting = CONTENT_SETTING_DEFAULT then CONTENT_SETTING_ASK else setting) \<and>
   default_content_setting_pref (SetDefaultContentSetting setting s) \<noteq>
     ContentSettingToInt CONTENT_SETTING_DEFAULT \<and>
   IntToContentSetting (default_content_setting_pref (SetDefaultContentSetting setting s)) \<noteq>
     CONTENT_SETTING_DEFAULT \<and>
   GetDefaultContentSetting s \<noteq> CONTENT_SETTING_DEFAULT \<and>
   GetDefaultContentSetting s =
     (if IntToContentSetting (default_content_setting_pref s) = CONTENT_SETTING_DEFAULT
      then CONTENT_SETTING_ASK
      else IntToContentSetting (default_content_setting_pref s)) \<and>
   GetDefaultContentSetting (SetDefaultContentSetting setting s) =
     (if setting = CONTENT_SETTING_DEFAULT then CONTENT_SETTING_ASK else setting)"
  by (cases setting)
     (simp_all add: SetDefaultContentSetting_prefs GetDefaultContentSetting_def
       kDefaultSetting_def IntToContentSetting_def Let_def)

subsection \<open>The query on a profile that is off the record\<close>

text \<open>
  C10. On a profile that is off the record, \<^verbatim>\<open>GetContentSetting\<close>
  answers ASK for every origin, after any sequence of grants, denials, resets
  and changes of the default, and whatever the preferences hold.
\<close>

theorem off_the_record_always_asks:
  assumes "is_off_the_record s"
  shows "GetContentSetting origin (run_calls cs s) = CONTENT_SETTING_ASK"
  using assms
  by (simp add: GetContentSetting_def run_calls_is_off_the_record kDefaultSetting_def)

text \<open>
  An off-the-record profile whose stored default is BLOCK and which has a
  denied origin: after a grant and a denial both origins still resolve to ASK.
\<close>

theorem off_the_record_always_asks_witness:
  "is_off_the_record (created True 2 [] [''http://b.example/'']) \<and>
   GetContentSetting ''http://a.example/''
     (run_calls [Grant ''http://a.example/'', Deny ''http://b.example/'']
        (created True 2 [] [''http://b.example/''])) = CONTENT_SETTING_ASK \<and>
   GetContentSetting ''http://b.example/''
     (run_calls [Grant ''http://a.example/'', Deny ''http://b.example/'']
        (created True 2 [] [''http://b.example/''])) = CONTENT_SETTING_ASK"
proof -
  have h: "is_off_the_record (created True 2 [] [''http://b.example/''])"
    by (simp add: created_def StartObserving_def)
  from off_the_record_always_asks [OF h, where origin = "''http://a.example/''"
         and cs = "[Grant ''http://a.example/'', Deny ''http://b.example/'']"]
       off_the_record_always_asks [OF h, where origin = "''http://b.example/''"
         and cs = "[Grant ''http://a.example/'', Deny ''http://b.example/'']"]
       h
  show ?thesis by blast
qed

end
